theory Spec2Isabelle
  imports Main
begin

section \<open>Data model of the voice provider\<close>

text \<open>
  The source is \<^verbatim>\<open>VoiceProvider\<close>, a React component that owns two pieces of state,
  \<^verbatim>\<open>status\<close> and \<^verbatim>\<open>error\<close>, and drives five collaborators (encoding, microphone,
  sound player, voice client, message store) whose code is outside the file. The model
  keeps the two state cells, and records every call the provider makes on a collaborator
  or on the \<^verbatim>\<open>onError\<close> callback in a log, in the order of the calls.
\<close>

text \<open>\<^verbatim>\<open>VoiceError\<close>: an object with a \<^verbatim>\<open>type\<close> tag out of three and a message.\<close>

datatype error_type = socket_error | audio_error | mic_error

record VoiceError =
  type :: error_type
  message :: string

text \<open>
  \<^verbatim>\<open>VoiceStatus\<close>: the field \<^verbatim>\<open>value\<close> (here \<open>svalue\<close>) and the optional field
  \<^verbatim>\<open>reason\<close>. The TypeScript type forbids a reason on the first three values; the record
  does not, so that the agreement of the two fields is a property to prove of the code
  and not one of the model's types.
\<close>

datatype status_value = disconnected | connecting | connected | error

record VoiceStatus =
  svalue :: status_value
  reason :: "string option"

text \<open>
  Modelled from the spec: the permission values of the encoding collaborator
  (\<^verbatim>\<open>useEncoding\<close> is imported, its file is not part of the sources). The provider only
  ever compares a permission with \<^verbatim>\<open>'denied'\<close>.
\<close>

datatype permission = granted | denied

text \<open>
  \<^verbatim>\<open>encodingRef.current\<close>, of which the provider reads \<^verbatim>\<open>sampleRate\<close> and
  \<^verbatim>\<open>channelCount\<close>. Sample rates and channel counts are only copied, never computed with.
\<close>

record encoding =
  sampleRate :: nat
  channelCount :: nat

text \<open>
  The result of \<^verbatim>\<open>createConfig(props)\<close>. Only \<^verbatim>\<open>sampleRate\<close> and \<^verbatim>\<open>channels\<close> are
  named by the provider; every other field of the configuration lives in the extension
  slot of the record, so that \<^verbatim>\<open>{...config, sampleRate: a, channels: b}\<close> is the record
  update \<open>config\<lparr>Config.sampleRate := a, channels := b\<rparr>\<close>.
\<close>

record Config =
  sampleRate :: nat
  channels :: nat

text \<open>How a promise settles (\<^verbatim>\<open>Promise.allSettled\<close> reports exactly this).\<close>

datatype settled = fulfilled | rejected

text \<open>The calls the provider makes on its collaborators and on \<^verbatim>\<open>onError.current\<close>.\<close>

datatype 'c call =
    GetStream
  | ClientConnect "'c Config_scheme"
  | ClientDisconnect
  | ClientSendAudio
  | PlayerInitPlayer
  | PlayerStopAll
  | PlayerAddToQueue
  | MicStart
  | MicStop
  | MessageStoreDisconnect
  | MessageStoreOnPlayAudio string
  | MessageStoreOnTranscriptMessage
  | MessageStoreCreateConnectMessage
  | MessageStoreCreateDisconnectMessage
  | OnError VoiceError

record 'c VoiceProvider =
  status :: VoiceStatus
  error :: "VoiceError option"
  calls :: "'c call list"

section \<open>State setters and the logged calls\<close>

definition setStatus :: "VoiceStatus \<Rightarrow> 'c VoiceProvider \<Rightarrow> 'c VoiceProvider" where
  "setStatus s w = w\<lparr>status := s\<rparr>"

definition setError :: "VoiceError option \<Rightarrow> 'c VoiceProvider \<Rightarrow> 'c VoiceProvider" where
  "setError err w = w\<lparr>error := err\<rparr>"

definition invoke :: "'c call \<Rightarrow> 'c VoiceProvider \<Rightarrow> 'c VoiceProvider" where
  "invoke c w = w\<lparr>calls := calls w @ [c]\<rparr>"

section \<open>Derived flags of the context (lines 113-117)\<close>

text \<open>
  \<^verbatim>\<open>error?.type === 'mic_error'\<close> is \<^verbatim>\<open>undefined === 'mic_error'\<close>, that is false, when
  \<^verbatim>\<open>error\<close> is null.
\<close>

definition isError :: "'c VoiceProvider \<Rightarrow> bool" where
  "isError w = (error w \<noteq> None)"

definition isMicrophoneError :: "'c VoiceProvider \<Rightarrow> bool" where
  "isMicrophoneError w = (case error w of None \<Rightarrow> False | Some e \<Rightarrow> type e = mic_error)"

definition isSocketError :: "'c VoiceProvider \<Rightarrow> bool" where
  "isSocketError w = (case error w of None \<Rightarrow> False | Some e \<Rightarrow> type e = socket_error)"

definition isAudioError :: "'c VoiceProvider \<Rightarrow> bool" where
  "isAudioError w = (case error w of None \<Rightarrow> False | Some e \<Rightarrow> type e = audio_error)"

section \<open>The error classifier (lines 124-145, 190-195)\<close>

text \<open>
  \<^verbatim>\<open>onError.current\<close> is \<^verbatim>\<open>props.onError ?? noop\<close>, so it is always callable; the call is
  logged as \<open>OnError\<close>.
\<close>

definition updateError :: "VoiceError option \<Rightarrow> 'c VoiceProvider \<Rightarrow> 'c VoiceProvider" where
  "updateError err w =
     (let w' = setError err w
      in case err of None \<Rightarrow> w' | Some e \<Rightarrow> invoke (OnError e) w')"

definition onClientError :: "string \<Rightarrow> 'c VoiceProvider \<Rightarrow> 'c VoiceProvider" where
  "onClientError msg w = updateError (Some \<lparr>type = socket_error, message = msg\<rparr>) w"

definition onPlayerError :: "string \<Rightarrow> 'c VoiceProvider \<Rightarrow> 'c VoiceProvider" where
  "onPlayerError msg w = updateError (Some \<lparr>type = audio_error, message = msg\<rparr>) w"

definition onMicError :: "string \<Rightarrow> 'c VoiceProvider \<Rightarrow> 'c VoiceProvider" where
  "onMicError msg w = updateError (Some \<lparr>type = mic_error, message = msg\<rparr>) w"

section \<open>Teardown, disconnect and the fail-over effect (lines 241-275)\<close>

definition disconnectFromVoice :: "'c VoiceProvider \<Rightarrow> 'c VoiceProvider" where
  "disconnectFromVoice w =
     invoke MessageStoreDisconnect (invoke MicStop (invoke PlayerStopAll (invoke ClientDisconnect w)))"

text \<open>\<^verbatim>\<open>!disconnectOnError\<close> for the optional boolean argument: undefined is falsy.\<close>

fun truthy :: "bool option \<Rightarrow> bool" where
  "truthy None = False"
| "truthy (Some b) = b"

text \<open>
  \<^verbatim>\<open>disconnect(disconnectOnError?)\<close>. \<^verbatim>\<open>micPermission\<close> is the encoding collaborator's
  permission as the callback has it. \<^verbatim>\<open>status.value\<close> in the second test is the constant
  of the render the callback was made in: \<^verbatim>\<open>setStatus\<close> schedules a new state and does
  not change it, so the test reads the status before the call (\<open>status w\<close>), also when
  the first test has just set another one. Of two \<^verbatim>\<open>setStatus\<close> calls the later one
  gives the next state.
\<close>

definition disconnect :: "permission \<Rightarrow> bool option \<Rightarrow> 'c VoiceProvider \<Rightarrow> 'c VoiceProvider" where
  "disconnect micPermission disconnectOnError w =
     (let w1 = (if micPermission = denied
                then setStatus \<lparr>svalue = status_value.error,
                                reason = Some ''Microphone permission denied''\<rparr> w
                else w);
          w2 = disconnectFromVoice w1
      in if svalue (status w) \<noteq> status_value.error \<and> \<not> truthy disconnectOnError
         then setStatus \<lparr>svalue = disconnected, reason = None\<rparr> w2
         else w2)"

text \<open>
  The body of the \<^verbatim>\<open>useEffect\<close> of lines 265-275. Its dependencies include
  \<^verbatim>\<open>status.value\<close> and \<^verbatim>\<open>error\<close>, the only two things its test reads, so it is evaluated
  on every committed state in which the test can have become true.
\<close>

definition failover :: "'c VoiceProvider \<Rightarrow> 'c VoiceProvider" where
  "failover w =
     (case error w of
        None \<Rightarrow> w
      | Some e \<Rightarrow>
          if svalue (status w) \<noteq> status_value.error \<and> svalue (status w) \<noteq> disconnected
          then disconnectFromVoice
                 (setStatus \<lparr>svalue = status_value.error, reason = Some (message e)\<rparr> w)
          else w)"

text \<open>
  A commit: the state updates of one turn of the event loop are applied together, the
  component renders, and the effect runs on the new state.
\<close>

definition commit :: "'c VoiceProvider \<Rightarrow> 'c VoiceProvider" where
  "commit w = failover w"

section \<open>connect (lines 198-239)\<close>

text \<open>
  \<^verbatim>\<open>connect\<close> is an async function with three \<^verbatim>\<open>await\<close>s. Each piece of code between two
  suspension points is one function; what the awaited promise yields is its argument.
  \<open>Inl\<close> is the early \<^verbatim>\<open>return\<close> of the source, \<open>Inr\<close> the state in which the next
  promise is awaited.
\<close>

definition connect_start :: "'c VoiceProvider \<Rightarrow> 'c VoiceProvider" where
  "connect_start w =
     invoke GetStream (setStatus \<lparr>svalue = connecting, reason = None\<rparr> (updateError None w))"

text \<open>
  After \<^verbatim>\<open>await getStream()\<close>: \<open>p\<close> is what the promise yielded, \<open>enc\<close> is
  \<^verbatim>\<open>encodingRef.current\<close> as it is read now, after the wait.
\<close>

definition connect_afterGetStream ::
  "'c Config_scheme \<Rightarrow> permission \<Rightarrow> encoding \<Rightarrow> 'c VoiceProvider
     \<Rightarrow> 'c VoiceProvider + 'c VoiceProvider" where
  "connect_afterGetStream config p enc w =
     (if p = denied
      then Inl (updateError
                 (Some \<lparr>type = mic_error, message = ''Microphone permission denied''\<rparr>) w)
      else Inr (invoke
                 (ClientConnect (config\<lparr>Config.sampleRate := encoding.sampleRate enc,
                                        channels := channelCount enc\<rparr>)) w))"

text \<open>
  After \<^verbatim>\<open>await client.connect(...).then(() => null).catch(() => new Error(...))\<close>:
  \<open>err\<close> is truthy exactly when the connect promise was rejected. On success the
  array \<^verbatim>\<open>[mic.start(), player.initPlayer()]\<close> is built, which calls both, in this
  order, before anything is awaited (both return a promise that settles).
\<close>

definition connect_afterClientConnect ::
  "settled \<Rightarrow> 'c VoiceProvider \<Rightarrow> 'c VoiceProvider + 'c VoiceProvider" where
  "connect_afterClientConnect t w =
     (if t = rejected
      then Inl (updateError
                 (Some \<lparr>type = socket_error,
                        message = ''We could not connect to the voice. Please try again.''\<rparr>) w)
      else Inr (invoke PlayerInitPlayer (invoke MicStart w)))"

definition connect_afterAllSettled ::
  "settled \<Rightarrow> settled \<Rightarrow> 'c VoiceProvider \<Rightarrow> 'c VoiceProvider" where
  "connect_afterAllSettled micPromise playerPromise w =
     (if micPromise = fulfilled \<and> playerPromise = fulfilled
      then setStatus \<lparr>svalue = connected, reason = None\<rparr> w
      else w)"

text \<open>What the collaborators answer during one run of \<^verbatim>\<open>connect\<close>.\<close>

record outcomes =
  permission :: permission
  negotiated :: encoding
  transport :: settled
  micStart :: settled
  playerInit :: settled

text \<open>
  One run of \<^verbatim>\<open>connect()\<close> from its call to its return, with nothing else happening in
  between: no other call of \<^verbatim>\<open>connect\<close> or \<^verbatim>\<open>disconnect\<close> and no error callback of a
  collaborator while the run is suspended.
\<close>

definition connect :: "'c Config_scheme \<Rightarrow> outcomes \<Rightarrow> 'c VoiceProvider \<Rightarrow> 'c VoiceProvider" where
  "connect config oc w =
     (case connect_afterGetStream config (permission oc) (negotiated oc)
             (commit (connect_start w)) of
        Inl w1 \<Rightarrow> commit w1
      | Inr w1 \<Rightarrow>
          (case connect_afterClientConnect (transport oc) (commit w1) of
             Inl w2 \<Rightarrow> commit w2
           | Inr w2 \<Rightarrow>
               commit (connect_afterAllSettled (micStart oc) (playerInit oc) (commit w2))))"

section \<open>Interleaved runs\<close>

text \<open>
  Everything that can happen to a mounted provider, one event per turn of the event
  loop: a call of \<^verbatim>\<open>connect\<close> or \<^verbatim>\<open>disconnect\<close> by the consumer, an awaited promise
  of a suspended \<^verbatim>\<open>connect\<close> settling, and the callbacks the collaborators invoke.
  The callbacks of lines 146-148, 164-182 and 187-189 only forward to a collaborator
  (their payloads, and the optional user callbacks they also call, are left out).
\<close>

datatype event =
    CallConnect
  | GetStreamSettled permission encoding
  | ClientConnectSettled settled
  | AllSettled settled settled
  | CallDisconnect permission "bool option"
  | ClientError string
  | PlayerError string
  | MicError string
  | AudioMessage
  | TranscriptMessage
  | ClientOpen
  | ClientClose
  | PlayAudio string
  | AudioCaptured

text \<open>
  A session is the provider together with the number of \<^verbatim>\<open>connect\<close> runs suspended at
  each of the three \<^verbatim>\<open>await\<close>s (\<^verbatim>\<open>connect\<close> has no reentrancy guard, so there may be
  several). A settlement with no run waiting for it cannot happen and changes nothing.
\<close>

record 'c session =
  provider :: "'c VoiceProvider"
  awaitingGetStream :: nat
  awaitingClientConnect :: nat
  awaitingAllSettled :: nat

definition initial :: "'c session" where
  "initial =
     \<lparr>provider = \<lparr>status = \<lparr>svalue = disconnected, reason = None\<rparr>, error = None, calls = []\<rparr>,
      awaitingGetStream = 0, awaitingClientConnect = 0, awaitingAllSettled = 0\<rparr>"

fun step :: "'c Config_scheme \<Rightarrow> event \<Rightarrow> 'c session \<Rightarrow> 'c session" where
  "step config CallConnect s =
     s\<lparr>provider := commit (connect_start (provider s)),
       awaitingGetStream := Suc (awaitingGetStream s)\<rparr>"
| "step config (GetStreamSettled p enc) s =
     (if awaitingGetStream s = 0 then s
      else (case connect_afterGetStream config p enc (provider s) of
              Inl w \<Rightarrow> s\<lparr>provider := commit w,
                          awaitingGetStream := awaitingGetStream s - 1\<rparr>
            | Inr w \<Rightarrow> s\<lparr>provider := commit w,
                          awaitingGetStream := awaitingGetStream s - 1,
                          awaitingClientConnect := Suc (awaitingClientConnect s)\<rparr>))"
| "step config (ClientConnectSettled t) s =
     (if awaitingClientConnect s = 0 then s
      else (case connect_afterClientConnect t (provider s) of
              Inl w \<Rightarrow> s\<lparr>provider := commit w,
                          awaitingClientConnect := awaitingClientConnect s - 1\<rparr>
            | Inr w \<Rightarrow> s\<lparr>provider := commit w,
                          awaitingClientConnect := awaitingClientConnect s - 1,
                          awaitingAllSettled := Suc (awaitingAllSettled s)\<rparr>))"
| "step config (AllSettled m pl) s =
     (if awaitingAllSettled s = 0 then s
      else s\<lparr>provider := commit (connect_afterAllSettled m pl (provider s)),
             awaitingAllSettled := awaitingAllSettled s - 1\<rparr>)"
| "step config (CallDisconnect mp doe) s =
     s\<lparr>provider := commit (disconnect mp doe (provider s))\<rparr>"
| "step config (ClientError msg) s = s\<lparr>provider := commit (onClientError msg (provider s))\<rparr>"
| "step config (PlayerError msg) s = s\<lparr>provider := commit (onPlayerError msg (provider s))\<rparr>"
| "step config (MicError msg) s = s\<lparr>provider := commit (onMicError msg (provider s))\<rparr>"
| "step config AudioMessage s = s\<lparr>provider := invoke PlayerAddToQueue (provider s)\<rparr>"
| "step config TranscriptMessage s =
     s\<lparr>provider := invoke MessageStoreOnTranscriptMessage (provider s)\<rparr>"
| "step config ClientOpen s =
     s\<lparr>provider := invoke MessageStoreCreateConnectMessage (provider s)\<rparr>"
| "step config ClientClose s =
     s\<lparr>provider := invoke MessageStoreCreateDisconnectMessage (provider s)\<rparr>"
| "step config (PlayAudio ident) s =
     s\<lparr>provider := invoke (MessageStoreOnPlayAudio ident) (provider s)\<rparr>"
| "step config AudioCaptured s = s\<lparr>provider := invoke ClientSendAudio (provider s)\<rparr>"

fun run :: "'c Config_scheme \<Rightarrow> event list \<Rightarrow> 'c session \<Rightarrow> 'c session" where
  "run config [] s = s"
| "run config (ev # evs) s = run config evs (step config ev s)"

text \<open>
  The two fields of a status agree: there is a reason exactly when the value is
  \<^verbatim>\<open>'error'\<close>.
\<close>

definition status_ok :: "VoiceStatus \<Rightarrow> bool" where
  "status_ok s = ((svalue s = status_value.error) = (reason s \<noteq> None))"

text \<open>
  The events that only forward to a collaborator: they change neither the status nor
  the error, and are no step of a \<^verbatim>\<open>connect\<close> run. Every other event is a call of
  \<^verbatim>\<open>connect\<close> or \<^verbatim>\<open>disconnect\<close>, an error callback, or a settlement.
\<close>

fun forwarding :: "event \<Rightarrow> bool" where
  "forwarding AudioMessage = True"
| "forwarding TranscriptMessage = True"
| "forwarding ClientOpen = True"
| "forwarding ClientClose = True"
| "forwarding (PlayAudio ident) = True"
| "forwarding AudioCaptured = True"
| "forwarding ev = False"

text \<open>The collaborator call a forwarding event makes (none for the other events).\<close>

fun forwarded :: "event \<Rightarrow> 'c call list" where
  "forwarded AudioMessage = [PlayerAddToQueue]"
| "forwarded TranscriptMessage = [MessageStoreOnTranscriptMessage]"
| "forwarded ClientOpen = [MessageStoreCreateConnectMessage]"
| "forwarded ClientClose = [MessageStoreCreateDisconnectMessage]"
| "forwarded (PlayAudio ident) = [MessageStoreOnPlayAudio ident]"
| "forwarded AudioCaptured = [ClientSendAudio]"
| "forwarded ev = []"

text \<open>The session of a provider in state \<open>w\<close> with no run of \<^verbatim>\<open>connect\<close> suspended.\<close>

definition idle :: "'c VoiceProvider \<Rightarrow> 'c session" where
  "idle w = \<lparr>provider = w, awaitingGetStream = 0, awaitingClientConnect = 0,
             awaitingAllSettled = 0\<rparr>"

text \<open>A session after the calls \<open>cs\<close> have been added to its log, nothing else changed.\<close>

definition logged :: "'c call list \<Rightarrow> 'c session \<Rightarrow> 'c session" where
  "logged cs s = s\<lparr>provider := (provider s)\<lparr>calls := calls (provider s) @ cs\<rparr>\<rparr>"

section \<open>Basic facts about the state operations\<close>

lemmas prim_defs = setStatus_def setError_def invoke_def updateError_def disconnectFromVoice_def
  failover_def commit_def

lemmas segment_defs = connect_start_def connect_afterGetStream_def
  connect_afterClientConnect_def connect_afterAllSettled_def

lemma status_invoke: "status (invoke c w) = status w"
  by (simp add: invoke_def)

lemma status_updateError: "status (updateError err w) = status w"
  by (cases err) (simp_all add: prim_defs)

text \<open>
  The effect does not fire on the state it has produced: the render that follows its
  own \<^verbatim>\<open>setStatus\<close> changes nothing more, so one application is a whole commit.
\<close>

lemma failover_idem: "failover (failover w) = failover w"
  by (simp add: prim_defs split: option.splits)

text \<open>
  The uninterrupted run \<open>connect\<close> is the interleaved model on the four events of one
  run, from a session in which no other run is suspended.
\<close>

lemma connect_as_run:
  "provider (run config
      [CallConnect, GetStreamSettled (permission oc) (negotiated oc),
       ClientConnectSettled (transport oc), AllSettled (micStart oc) (playerInit oc)]
      \<lparr>provider = w, awaitingGetStream = 0, awaitingClientConnect = 0,
       awaitingAllSettled = 0\<rparr>)
   = connect config oc w"
  by (cases "permission oc"; cases "transport oc")
     (simp_all add: connect_def connect_afterGetStream_def connect_afterClientConnect_def)

section \<open>Runs with forwarding events in between\<close>

lemma run_append: "run config (xs @ ys) s = run config ys (run config xs s)"
  by (induction xs arbitrary: s) simp_all

lemma step_forwarding: "forwarding ev \<Longrightarrow> step config ev s = logged (forwarded ev) s"
  by (cases ev) (simp_all add: logged_def invoke_def)

lemma logged_logged: "logged cs (logged bs s) = logged (bs @ cs) s"
  by (simp add: logged_def)

lemma run_forwarding:
  "list_all forwarding ps \<Longrightarrow> run config ps s = logged (concat (map forwarded ps)) s"
  by (induction ps arbitrary: s) (simp_all add: step_forwarding logged_logged logged_def)




section \<open>disconnect while the microphone permission is denied\<close>

text \<open>
  With the permission denied, the status after \<^verbatim>\<open>disconnect\<close> is the forced error only
  when the status before the call was already \<^verbatim>\<open>'error'\<close> or the argument is truthy;
  otherwise the later \<^verbatim>\<open>setStatus({ value: 'disconnected' })\<close> replaces it.
\<close>

lemma disconnect_denied_status:
  "status (disconnect denied doe w) =
     (if svalue (status w) \<noteq> status_value.error \<and> \<not> truthy doe
      then \<lparr>svalue = disconnected, reason = None\<rparr>
      else \<lparr>svalue = status_value.error, reason = Some ''Microphone permission denied''\<rparr>)"
  by (simp add: disconnect_def prim_defs)

text \<open>
  C1. The claim: whenever the microphone permission is denied, \<^verbatim>\<open>disconnect\<close> ends in
  the status error with reason "Microphone permission denied", whatever the status and
  the argument. The code at a reachable input: a connection is established with the
  permission granted, the permission is denied afterwards, and the consumer calls
  \<^verbatim>\<open>disconnect()\<close> with no argument. The resulting status is \<^verbatim>\<open>disconnected\<close>, with no
  reason: the forced error status is overwritten within the same call.
\<close>

theorem disconnect_denied_after_connected:
  "status (provider (run \<lparr>Config.sampleRate = 48000, channels = 1\<rparr>
      [CallConnect,
       GetStreamSettled granted \<lparr>encoding.sampleRate = 44100, channelCount = 1\<rparr>,
       ClientConnectSettled fulfilled,
       AllSettled fulfilled fulfilled,
       CallDisconnect denied None]
      initial))
   = \<lparr>svalue = disconnected, reason = None\<rparr>"
  by (simp add: initial_def disconnect_def segment_defs prim_defs)

section \<open>The join of microphone start and player initialisation\<close>

lemma run_join:
  assumes "list_all forwarding ps1" and "list_all forwarding ps2"
    and "list_all forwarding ps3" and "p \<noteq> denied"
  shows "run config (CallConnect # ps1 @ GetStreamSettled p enc # ps2 @
                      ClientConnectSettled fulfilled # ps3 @ [AllSettled m pl]) (idle w) =
     idle (w\<lparr>status := \<lparr>svalue = (if m = fulfilled \<and> pl = fulfilled then connected
                                     else connecting),
                         reason = None\<rparr>,
             error := None,
             calls := calls w @ [GetStream] @ concat (map forwarded ps1) @
               [ClientConnect (config\<lparr>Config.sampleRate := encoding.sampleRate enc,
                                      channels := channelCount enc\<rparr>)] @
               concat (map forwarded ps2) @ [MicStart, PlayerInitPlayer] @
               concat (map forwarded ps3)\<rparr>)"
  using assms
  by (simp add: run_append run_forwarding logged_def idle_def segment_defs prim_defs)

text \<open>
  C2 as stated fails. The statement covers every run of \<^verbatim>\<open>connect()\<close> with the
  permission granted and the transport connected. In the run below the microphone
  reports an error through its \<^verbatim>\<open>onError\<close> callback while \<^verbatim>\<open>connect\<close> waits for the
  join, and the microphone start then settles rejected: the effect has set the status
  to error with the microphone's message, and \<^verbatim>\<open>connect\<close> does not leave it at
  \<^verbatim>\<open>connecting\<close>.
\<close>

theorem connect_join_counterexample:
  "status (provider (run \<lparr>Config.sampleRate = 48000, channels = 2\<rparr>
      [CallConnect,
       GetStreamSettled granted \<lparr>encoding.sampleRate = 44100, channelCount = 1\<rparr>,
       ClientConnectSettled fulfilled,
       MicError ''no input device'',
       AllSettled rejected fulfilled] initial))
     = \<lparr>svalue = status_value.error, reason = Some ''no input device''\<rparr>
   \<and> status (provider (run \<lparr>Config.sampleRate = 48000, channels = 2\<rparr>
      [CallConnect,
       GetStreamSettled granted \<lparr>encoding.sampleRate = 44100, channelCount = 1\<rparr>,
       ClientConnectSettled fulfilled,
       MicError ''no input device'',
       AllSettled rejected fulfilled] initial))
     \<noteq> \<lparr>svalue = connecting, reason = None\<rparr>"
  by (simp add: initial_def onMicError_def segment_defs prim_defs)

text \<open>
  C2, amended. Take a run of \<^verbatim>\<open>connect()\<close> that starts with no other run suspended,
  whose permission request does not yield denied and whose transport connect is
  fulfilled, and during whose three waits only forwarding events occur (no call of
  \<^verbatim>\<open>connect\<close> or \<^verbatim>\<open>disconnect\<close> and no error callback of a collaborator). Then the
  status after the join is \<^verbatim>\<open>connected\<close> exactly when the microphone start and the
  player initialisation are both fulfilled; when one of them is rejected the status is
  left at \<^verbatim>\<open>connecting\<close>, with no reason. Both are started, whatever the other one
  does, and the run is over.
\<close>

theorem connect_join_undisturbed:
  assumes "list_all forwarding ps1" and "list_all forwarding ps2"
    and "list_all forwarding ps3" and "p \<noteq> denied"
    and "s' = run config (CallConnect # ps1 @ GetStreamSettled p enc # ps2 @
                            ClientConnectSettled fulfilled # ps3 @ [AllSettled m pl]) (idle w)"
  shows "(svalue (status (provider s')) = connected \<longleftrightarrow> m = fulfilled \<and> pl = fulfilled)
       \<and> (m = rejected \<or> pl = rejected
            \<longrightarrow> status (provider s') = \<lparr>svalue = connecting, reason = None\<rparr>)
       \<and> calls (provider s')
           = calls w @ [GetStream] @ concat (map forwarded ps1) @
             [ClientConnect (config\<lparr>Config.sampleRate := encoding.sampleRate enc,
                                    channels := channelCount enc\<rparr>)] @
             concat (map forwarded ps2) @ [MicStart, PlayerInitPlayer] @
             concat (map forwarded ps3)
       \<and> awaitingGetStream s' = 0 \<and> awaitingClientConnect s' = 0
       \<and> awaitingAllSettled s' = 0"
proof -
  have "s' = idle (w\<lparr>status := \<lparr>svalue = (if m = fulfilled \<and> pl = fulfilled then connected
                                     else connecting),
                         reason = None\<rparr>,
             error := None,
             calls := calls w @ [GetStream] @ concat (map forwarded ps1) @
               [ClientConnect (config\<lparr>Config.sampleRate := encoding.sampleRate enc,
                                      channels := channelCount enc\<rparr>)] @
               concat (map forwarded ps2) @ [MicStart, PlayerInitPlayer] @
               concat (map forwarded ps3)\<rparr>)"
    unfolding assms(5) by (rule run_join [OF assms(1,2,3,4)])
  then show ?thesis
    by (cases m; cases pl) (simp_all add: idle_def)
qed

theorem connect_join_undisturbed_witness:
  "status (provider (run \<lparr>Config.sampleRate = 48000, channels = 2\<rparr>
      [CallConnect,
       GetStreamSettled granted \<lparr>encoding.sampleRate = 44100, channelCount = 1\<rparr>,
       ClientOpen,
       ClientConnectSettled fulfilled,
       AudioMessage,
       AllSettled fulfilled rejected] initial))
     = \<lparr>svalue = connecting, reason = None\<rparr>
   \<and> svalue (status (provider (run \<lparr>Config.sampleRate = 48000, channels = 2\<rparr>
      [CallConnect,
       GetStreamSettled granted \<lparr>encoding.sampleRate = 44100, channelCount = 1\<rparr>,
       ClientOpen,
       ClientConnectSettled fulfilled,
       AudioMessage,
       AllSettled fulfilled fulfilled] initial))) = connected"
proof -
  have h0: "list_all forwarding []" by simp
  have h1: "list_all forwarding [ClientOpen]" by simp
  have h2: "list_all forwarding [AudioMessage]" by simp
  have h3: "granted \<noteq> denied" by simp
  show ?thesis
    using connect_join_undisturbed [OF h0 h1 h2 h3 refl,
            where config = "\<lparr>Config.sampleRate = 48000, channels = 2\<rparr>" and enc = "\<lparr>encoding.sampleRate = 44100, channelCount = 1\<rparr>"
              and m = fulfilled and pl = rejected and w = "provider initial"]
          connect_join_undisturbed [OF h0 h1 h2 h3 refl,
            where config = "\<lparr>Config.sampleRate = 48000, channels = 2\<rparr>" and enc = "\<lparr>encoding.sampleRate = 44100, channelCount = 1\<rparr>"
              and m = fulfilled and pl = fulfilled and w = "provider initial"]
    by (simp add: initial_def idle_def)
qed

section \<open>The fail-over effect\<close>

text \<open>
  C3. When an error is reported (\<^verbatim>\<open>updateError\<close> with a non-null error, the only place
  where \<^verbatim>\<open>error\<close> is set) while the status is \<^verbatim>\<open>connecting\<close> or \<^verbatim>\<open>connected\<close>, the commit
  that follows sets the status to error with the error's message as reason and calls
  the four teardown operations (client disconnect, player stopAll, microphone stop,
  message store disconnect), with no call of \<^verbatim>\<open>disconnect\<close>.
\<close>

theorem failover_fires_while_active:
  assumes "svalue (status w) = connecting \<or> svalue (status w) = connected"
  shows "status (commit (updateError (Some e) w))
           = \<lparr>svalue = status_value.error, reason = Some (message e)\<rparr>
       \<and> error (commit (updateError (Some e) w)) = Some e
       \<and> calls (commit (updateError (Some e) w))
           = calls w @ [OnError e, ClientDisconnect, PlayerStopAll, MicStop,
                        MessageStoreDisconnect]"
  using assms by (auto simp add: prim_defs)

theorem failover_fires_while_active_witness:
  "status (commit (updateError (Some \<lparr>type = socket_error, message = ''lost connection''\<rparr>)
       \<lparr>status = \<lparr>svalue = connected, reason = None\<rparr>, error = None, calls = ([] :: unit call list)\<rparr>))
     = \<lparr>svalue = status_value.error, reason = Some ''lost connection''\<rparr>
   \<and> calls (commit (updateError (Some \<lparr>type = socket_error, message = ''lost connection''\<rparr>)
       \<lparr>status = \<lparr>svalue = connected, reason = None\<rparr>, error = None, calls = ([] :: unit call list)\<rparr>))
     = [OnError \<lparr>type = socket_error, message = ''lost connection''\<rparr>,
        ClientDisconnect, PlayerStopAll, MicStop, MessageStoreDisconnect]"
  using failover_fires_while_active
          [of "\<lparr>status = \<lparr>svalue = connected, reason = None\<rparr>, error = None, calls = ([] :: unit call list)\<rparr>"
              "\<lparr>type = socket_error, message = ''lost connection''\<rparr>"]
  by simp

text \<open>
  C10. When an error is reported while the status is \<^verbatim>\<open>disconnected\<close> or \<^verbatim>\<open>error\<close>,
  the effect does not fire: the status is unchanged and the only call made is the
  \<^verbatim>\<open>onError\<close> callback of \<^verbatim>\<open>updateError\<close>; no teardown operation is called.
\<close>

theorem failover_silent_while_inactive:
  assumes "svalue (status w) = disconnected \<or> svalue (status w) = status_value.error"
  shows "status (commit (updateError (Some e) w)) = status w
       \<and> error (commit (updateError (Some e) w)) = Some e
       \<and> calls (commit (updateError (Some e) w)) = calls w @ [OnError e]"
  using assms by (auto simp add: prim_defs)

theorem failover_silent_while_inactive_witness:
  "status (commit (updateError (Some \<lparr>type = audio_error, message = ''no output device''\<rparr>)
       \<lparr>status = \<lparr>svalue = disconnected, reason = None\<rparr>, error = None, calls = ([] :: unit call list)\<rparr>))
     = \<lparr>svalue = disconnected, reason = None\<rparr>
   \<and> calls (commit (updateError (Some \<lparr>type = audio_error, message = ''no output device''\<rparr>)
       \<lparr>status = \<lparr>svalue = disconnected, reason = None\<rparr>, error = None, calls = ([] :: unit call list)\<rparr>))
     = [OnError \<lparr>type = audio_error, message = ''no output device''\<rparr>]"
  using failover_silent_while_inactive
          [of "\<lparr>status = \<lparr>svalue = disconnected, reason = None\<rparr>, error = None, calls = ([] :: unit call list)\<rparr>"
              "\<lparr>type = audio_error, message = ''no output device''\<rparr>"]
  by simp

section \<open>Failures during connect\<close>









section \<open>The configuration passed to the voice client\<close>



section \<open>The error classifier\<close>

text \<open>
  C8. \<^verbatim>\<open>updateError(err)\<close> sets the error state to \<open>err\<close>, leaves the status alone, and
  calls the \<^verbatim>\<open>onError\<close> callback exactly once, with the error, when \<open>err\<close> is not null,
  and makes no call at all when \<open>err\<close> is null.
\<close>

theorem updateError_sets_and_notifies:
  "error (updateError err w) = err
   \<and> status (updateError err w) = status w
   \<and> calls (updateError err w) = calls w @ (case err of None \<Rightarrow> [] | Some e \<Rightarrow> [OnError e])"
  by (cases err) (simp_all add: prim_defs)

text \<open>
  C9. In every state of the provider, \<^verbatim>\<open>isError\<close> holds exactly when the error is not
  null; with an error, each of \<^verbatim>\<open>isSocketError\<close>, \<^verbatim>\<open>isAudioError\<close>, \<^verbatim>\<open>isMicrophoneError\<close>
  holds exactly when it matches the error's type, so exactly one of them holds; with no
  error none of them holds.
\<close>

theorem error_flags_consistent:
  "(isError w \<longleftrightarrow> error w \<noteq> None)
   \<and> (\<forall>e. error w = Some e \<longrightarrow>
          (isSocketError w \<longleftrightarrow> type e = socket_error)
        \<and> (isAudioError w \<longleftrightarrow> type e = audio_error)
        \<and> (isMicrophoneError w \<longleftrightarrow> type e = mic_error))
   \<and> (error w = None \<longrightarrow> \<not> isSocketError w \<and> \<not> isAudioError w \<and> \<not> isMicrophoneError w)
   \<and> length (filter (\<lambda>b. b) [isSocketError w, isAudioError w, isMicrophoneError w])
       = (if error w = None then 0 else 1)"
proof (cases "error w")
  case None
  then show ?thesis
    by (simp add: isError_def isSocketError_def isAudioError_def isMicrophoneError_def)
next
  case (Some e)
  then show ?thesis
    by (cases "type e")
       (simp_all add: isError_def isSocketError_def isAudioError_def isMicrophoneError_def)
qed

theorem error_flags_consistent_witness:
  "isError \<lparr>status = \<lparr>svalue = status_value.error, reason = Some ''lost connection''\<rparr>,
            error = Some \<lparr>type = socket_error, message = ''lost connection''\<rparr>, calls = ([] :: unit call list)\<rparr>
   \<and> isSocketError \<lparr>status = \<lparr>svalue = status_value.error, reason = Some ''lost connection''\<rparr>,
            error = Some \<lparr>type = socket_error, message = ''lost connection''\<rparr>, calls = ([] :: unit call list)\<rparr>
   \<and> \<not> isAudioError \<lparr>status = \<lparr>svalue = status_value.error, reason = Some ''lost connection''\<rparr>,
            error = Some \<lparr>type = socket_error, message = ''lost connection''\<rparr>, calls = ([] :: unit call list)\<rparr>
   \<and> \<not> isMicrophoneError \<lparr>status = \<lparr>svalue = status_value.error, reason = Some ''lost connection''\<rparr>,
            error = Some \<lparr>type = socket_error, message = ''lost connection''\<rparr>, calls = ([] :: unit call list)\<rparr>"
  using error_flags_consistent
          [of "\<lparr>status = \<lparr>svalue = status_value.error, reason = Some ''lost connection''\<rparr>,
                error = Some \<lparr>type = socket_error, message = ''lost connection''\<rparr>, calls = ([] :: unit call list)\<rparr>"]
  by simp

section \<open>The status invariant\<close>

lemma status_ok_commit: "status_ok (status w) \<Longrightarrow> status_ok (status (commit w))"
  by (simp add: prim_defs status_ok_def split: option.splits)

lemma status_ok_connect_start: "status_ok (status (connect_start w))"
  by (simp add: connect_start_def status_invoke setStatus_def status_ok_def)

lemma status_ok_afterGetStream:
  "status_ok (status w) \<Longrightarrow>
   connect_afterGetStream config p enc w = Inl w' \<or> connect_afterGetStream config p enc w = Inr w'
   \<Longrightarrow> status_ok (status w')"
  by (auto simp add: connect_afterGetStream_def status_invoke status_updateError
           split: if_splits)

lemma status_ok_afterClientConnect:
  "status_ok (status w) \<Longrightarrow>
   connect_afterClientConnect t w = Inl w' \<or> connect_afterClientConnect t w = Inr w'
   \<Longrightarrow> status_ok (status w')"
  by (auto simp add: connect_afterClientConnect_def status_invoke status_updateError
           split: if_splits)

lemma status_ok_afterAllSettled:
  "status_ok (status w) \<Longrightarrow> status_ok (status (connect_afterAllSettled m pl w))"
  by (simp add: connect_afterAllSettled_def setStatus_def status_ok_def)

lemma status_ok_disconnect:
  "status_ok (status w) \<Longrightarrow> status_ok (status (disconnect mp doe w))"
  by (simp add: disconnect_def prim_defs status_ok_def Let_def)

lemma status_ok_step:
  assumes "status_ok (status (provider s))"
  shows "status_ok (status (provider (step config ev s)))"
proof (cases ev)
  case CallConnect
  then show ?thesis by (simp add: status_ok_commit status_ok_connect_start)
next
  case (GetStreamSettled p enc)
  then show ?thesis using assms
    by (auto split: sum.splits intro!: status_ok_commit dest: status_ok_afterGetStream)
next
  case (ClientConnectSettled t)
  then show ?thesis using assms
    by (auto split: sum.splits intro!: status_ok_commit dest: status_ok_afterClientConnect)
next
  case (AllSettled m pl)
  then show ?thesis using assms by (simp add: status_ok_commit status_ok_afterAllSettled)
next
  case (CallDisconnect mp doe)
  then show ?thesis using assms by (simp add: status_ok_commit status_ok_disconnect)
next
  case (ClientError msg)
  then show ?thesis using assms
    by (simp add: status_ok_commit onClientError_def status_updateError)
next
  case (PlayerError msg)
  then show ?thesis using assms
    by (simp add: status_ok_commit onPlayerError_def status_updateError)
next
  case (MicError msg)
  then show ?thesis using assms
    by (simp add: status_ok_commit onMicError_def status_updateError)
qed (use assms in \<open>simp_all add: status_invoke\<close>)

lemma status_ok_run:
  "status_ok (status (provider s)) \<Longrightarrow> status_ok (status (provider (run config evs s)))"
  by (induction evs arbitrary: s) (simp_all add: status_ok_step)

lemma status_ok_initial: "status_ok (status (provider initial))"
  by (simp add: initial_def status_ok_def)

text \<open>
  C6. After every sequence of events from the initial state (calls of \<^verbatim>\<open>connect\<close> and
  \<^verbatim>\<open>disconnect\<close>, settlements of the promises \<^verbatim>\<open>connect\<close> awaits, callbacks of the
  collaborators), the status value is one of \<^verbatim>\<open>disconnected\<close>, \<^verbatim>\<open>connecting\<close>,
  \<^verbatim>\<open>connected\<close>, \<^verbatim>\<open>error\<close>, and the status has a reason exactly when its value is
  \<^verbatim>\<open>error\<close>.
\<close>

theorem status_reason_invariant:
  "svalue (status (provider (run config evs initial)))
     \<in> {disconnected, connecting, connected, status_value.error}
   \<and> ((svalue (status (provider (run config evs initial))) = status_value.error)
        = (reason (status (provider (run config evs initial))) \<noteq> None))"
proof
  show "svalue (status (provider (run config evs initial)))
          \<in> {disconnected, connecting, connected, status_value.error}"
    by (cases "svalue (status (provider (run config evs initial)))") simp_all
  show "(svalue (status (provider (run config evs initial))) = status_value.error)
          = (reason (status (provider (run config evs initial))) \<noteq> None)"
    using status_ok_run [OF status_ok_initial, of config evs] by (simp add: status_ok_def)
qed

end
